theory Spec2Isabelle
  imports Complex_Main "HOL-Library.Multiset"
begin

section \<open>Host types and Python containers\<close>

text \<open>
  The alpha models are callbacks of a host trading engine. The host's records are consumed
  as plain data: a symbol is its string, prices, volumes and ratios are numbers, a
  \<^verbatim>\<open>datetime\<close> and a \<^verbatim>\<open>timedelta\<close> are counts of microseconds. Numbers of the host
  (decimals and doubles) are modelled as reals, so rounding and NaN are not part of the
  model.
\<close>

type_synonym symbol = string
type_synonym datetime = int
type_synonym timedelta = int

datatype py_error = KeyError | ZeroDivisionError

text \<open>
  A Python \<^verbatim>\<open>dict\<close> keeps its keys in the order of their first insertion; assigning to a
  key that is present replaces the value and keeps the position. It is an association list
  with that update.
\<close>

type_synonym ('k, 'v) dict = "('k \<times> 'v) list"

primrec dict_set :: "'k \<Rightarrow> 'v \<Rightarrow> ('k, 'v) dict \<Rightarrow> ('k, 'v) dict" where
  "dict_set k v [] = [(k, v)]"
| "dict_set k v (p # ps) = (if fst p = k then (k, v) # ps else p # dict_set k v ps)"

definition dict_from_pairs :: "('k \<times> 'v) list \<Rightarrow> ('k, 'v) dict" where
  "dict_from_pairs ps = fold (\<lambda>p d. dict_set (fst p) (snd p) d) ps []"

definition dict_keys :: "('k, 'v) dict \<Rightarrow> 'k list" where
  "dict_keys d = map fst d"

definition dict_contains :: "'k \<Rightarrow> ('k, 'v) dict \<Rightarrow> bool" where
  "dict_contains k d = (map_of d k \<noteq> None)"

text \<open>\<^verbatim>\<open>d.pop(k, None)\<close>: the value stored under the key, if any, and the dict without it.\<close>

definition dict_pop :: "'k \<Rightarrow> ('k, 'v) dict \<Rightarrow> 'v option \<times> ('k, 'v) dict" where
  "dict_pop k d = (map_of d k, filter (\<lambda>p. fst p \<noteq> k) d)"

text \<open>
  \<^verbatim>\<open>sorted(xs, key=..., reverse=...)\<close> is a stable sort. With \<^verbatim>\<open>reverse=True\<close>
  the list is reversed, sorted and reversed again, so that entries with equal keys keep the
  order they had.
\<close>

definition py_sorted :: "('a \<Rightarrow> 'k::linorder) \<Rightarrow> bool \<Rightarrow> 'a list \<Rightarrow> 'a list" where
  "py_sorted key reverse xs =
     (if reverse then rev (sort_key key (rev xs)) else sort_key key xs)"

text \<open>The keys of a list in the order of their first occurrence, each once.\<close>

primrec first_occurrences :: "'a list \<Rightarrow> 'a list" where
  "first_occurrences [] = []"
| "first_occurrences (x # xs) = x # filter (\<lambda>y. y \<noteq> x) (first_occurrences xs)"

section \<open>GreenblattMagicFormulaAlgorithm.py: MagicFormulaUniverseSelectionModel\<close>

record CoarseFundamental =
  c_Symbol :: symbol
  c_EndTime_month :: int
  c_HasFundamentalData :: bool
  c_Volume :: real
  c_Price :: real
  c_DollarVolume :: real

record UniverseModel =
  lastMonth :: int
  dollarVolumeBySymbol :: "(symbol, real) dict"
  symbols :: "symbol list"

definition NumberOfSymbolsCoarse :: nat where
  "NumberOfSymbolsCoarse = 500"



definition UniverseModel_init :: UniverseModel where
  "UniverseModel_init = \<lparr>lastMonth = - 1, dollarVolumeBySymbol = [], symbols = []\<rparr>"

text \<open>\<^verbatim>\<open>SelectCoarse\<close> returns the symbol list and the model as the call leaves it.\<close>

definition SelectCoarse ::
  "UniverseModel \<Rightarrow> CoarseFundamental list \<Rightarrow> symbol list \<times> UniverseModel" where
  "SelectCoarse self coarse =
     (case coarse of
        [] \<Rightarrow> (symbols self, self)
      | c0 # _ \<Rightarrow>
          let month = c_EndTime_month c0 in
          if month = lastMonth self then (symbols self, self)
          else
            let self1 = self\<lparr>lastMonth := month\<rparr>;
                filtered = filter (\<lambda>x. c_HasFundamentalData x \<and> c_Volume x > 0 \<and> c_Price x > 0) coarse;
                top = take NumberOfSymbolsCoarse (py_sorted c_DollarVolume True filtered);
                self2 = self1\<lparr>dollarVolumeBySymbol :=
                          dict_from_pairs (map (\<lambda>i. (c_Symbol i, c_DollarVolume i)) top)\<rparr>;
                self3 = self2\<lparr>symbols := dict_keys (dollarVolumeBySymbol self2)\<rparr>
            in (symbols self3, self3))"

text \<open>
  The coarse selection in the words of its description: the entries with fundamental data,
  positive volume and positive price, in descending order of dollar volume (entries of equal
  dollar volume in the order of the input), the first 500 of them, by symbol.
\<close>

definition coarse_eligible :: "CoarseFundamental \<Rightarrow> bool" where
  "coarse_eligible x = (c_HasFundamentalData x \<and> 0 < c_Volume x \<and> 0 < c_Price x)"

definition SelectCoarse_spec :: "CoarseFundamental list \<Rightarrow> CoarseFundamental list" where
  "SelectCoarse_spec coarse =
     take 500 (sort_key (\<lambda>x. - c_DollarVolume x) (filter coarse_eligible coarse))"















section \<open>Insights and securities of the host\<close>

datatype InsightDirection = Down | Flat | Up

datatype Resolution = Tick | Second | Minute | Hour | Daily

record Insight =
  i_Symbol :: symbol
  i_Period :: timedelta
  i_Direction :: InsightDirection
  i_Magnitude :: "real option"
  i_Confidence :: "real option"

definition Insight_Price ::
  "symbol \<Rightarrow> timedelta \<Rightarrow> InsightDirection \<Rightarrow> real option \<Rightarrow> real option \<Rightarrow> Insight" where
  "Insight_Price symbol period direction magnitude confidence =
     \<lparr>i_Symbol = symbol, i_Period = period, i_Direction = direction,
      i_Magnitude = magnitude, i_Confidence = confidence\<rparr>"

record Security =
  Symbol :: symbol
  HasData :: bool
  Open :: real
  Close :: real

section \<open>GreenblattMagicFormulaAlgorithm.py: MagicFormulaAlphaModel and SymbolData\<close>

text \<open>
  The rate-of-change indicator belongs to the host: the model reads its sample count, its
  readiness and its current value, and feeds it the warm-up history. Its constructor and
  its update, the symbol cache and the consolidator factory are functions of the host.
\<close>

record RateOfChange =
  roc_Samples :: int
  roc_IsReady :: bool
  roc_Current_Value :: real

type_synonym consolidator = nat

record Host =
  GetSymbol :: "string \<Rightarrow> symbol"
  RateOfChange_new :: "symbol \<Rightarrow> int \<Rightarrow> RateOfChange"
  ROC_Update :: "RateOfChange \<Rightarrow> datetime \<Rightarrow> real \<Rightarrow> RateOfChange"
  ResolveConsolidator :: "symbol \<Rightarrow> Resolution \<Rightarrow> consolidator"

record SymbolData =
  sd_Symbol :: symbol
  sd_ROC :: RateOfChange
  sd_Consolidator :: "consolidator option"
  sd_previous :: int

definition SymbolData_init :: "Host \<Rightarrow> symbol \<Rightarrow> int \<Rightarrow> SymbolData" where
  "SymbolData_init h symbol lookback =
     \<lparr>sd_Symbol = symbol, sd_ROC = RateOfChange_new h symbol lookback,
      sd_Consolidator = None, sd_previous = 0\<rparr>"

definition RegisterIndicators :: "Host \<Rightarrow> Resolution \<Rightarrow> SymbolData \<Rightarrow> SymbolData" where
  "RegisterIndicators h resolution sd =
     sd\<lparr>sd_Consolidator := Some (ResolveConsolidator h (sd_Symbol sd) resolution)\<rparr>"

definition WarmUpIndicators :: "Host \<Rightarrow> (datetime \<times> real) list \<Rightarrow> SymbolData \<Rightarrow> SymbolData" where
  "WarmUpIndicators h history sd =
     sd\<lparr>sd_ROC := fold (\<lambda>tuple roc. ROC_Update h roc (fst tuple) (snd tuple)) history (sd_ROC sd)\<rparr>"

definition Return :: "SymbolData \<Rightarrow> real" where
  "Return sd = roc_Current_Value (sd_ROC sd)"

text \<open>The property \<^verbatim>\<open>CanEmit\<close> writes \<^verbatim>\<open>self.previous\<close>: it returns its value and the record.\<close>

definition CanEmit :: "SymbolData \<Rightarrow> bool \<times> SymbolData" where
  "CanEmit sd =
     (if sd_previous sd = roc_Samples (sd_ROC sd) then (False, sd)
      else (roc_IsReady (sd_ROC sd), sd\<lparr>sd_previous := roc_Samples (sd_ROC sd)\<rparr>))"

record MagicFormulaAlphaModel =
  mf_lookback :: int
  mf_resolution :: Resolution
  mf_predictionInterval :: timedelta
  symbolDataBySymbol :: "(symbol, SymbolData) dict"

definition MagicFormulaAlphaModel_init :: "int \<Rightarrow> Resolution \<Rightarrow> timedelta \<Rightarrow> MagicFormulaAlphaModel" where
  "MagicFormulaAlphaModel_init lookback resolution interval =
     \<lparr>mf_lookback = lookback, mf_resolution = resolution, mf_predictionInterval = interval,
      symbolDataBySymbol = []\<rparr>"

text \<open>
  \<^verbatim>\<open>Update\<close> walks the items of the dict in order; the records it visits keep what
  \<^verbatim>\<open>CanEmit\<close> wrote.
\<close>

fun update_loop ::
  "timedelta \<Rightarrow> (symbol, SymbolData) dict \<Rightarrow> Insight list \<Rightarrow> Insight list \<times> (symbol, SymbolData) dict" where
  "update_loop interval [] insights = (insights, [])"
| "update_loop interval ((symbol, symbolData) # items) insights =
     (let (emit, symbolData') = CanEmit symbolData;
          insights' = (if emit
                       then insights @ [Insight_Price symbol interval Up (Some (Return symbolData')) None]
                       else insights);
          (result, items') = update_loop interval items insights'
      in (result, (symbol, symbolData') # items'))"

definition MagicFormula_Update :: "MagicFormulaAlphaModel \<Rightarrow> Insight list \<times> MagicFormulaAlphaModel" where
  "MagicFormula_Update self =
     (let (insights, items) = update_loop (mf_predictionInterval self) (symbolDataBySymbol self) []
      in (insights, self\<lparr>symbolDataBySymbol := items\<rparr>))"

record SecurityChanges =
  AddedSecurities :: "Security list"
  RemovedSecurities :: "Security list"

text \<open>
  The first loop of \<^verbatim>\<open>OnSecuritiesChanged\<close> pops the symbol of every removed security;
  removing the consolidator of a popped record is a call into the host.
\<close>

fun remove_loop :: "Security list \<Rightarrow> (symbol, SymbolData) dict \<Rightarrow> (symbol, SymbolData) dict" where
  "remove_loop [] d = d"
| "remove_loop (removed # rest) d = remove_loop rest (snd (dict_pop (Symbol removed) d))"

text \<open>
  The second loop walks the tickers of the history frame, each with its rows. A record is
  stored under its symbol and then registered and warmed up; the dict holds the record
  with these later writes.
\<close>

fun add_loop ::
  "Host \<Rightarrow> int \<Rightarrow> Resolution \<Rightarrow> (string \<times> (datetime \<times> real) list) list \<Rightarrow>
   (symbol, SymbolData) dict \<Rightarrow> (symbol, SymbolData) dict" where
  "add_loop h lookback resolution [] d = d"
| "add_loop h lookback resolution ((ticker, rows) # tickers) d =
     (let symbol = GetSymbol h ticker in
      if \<not> dict_contains symbol d
      then add_loop h lookback resolution tickers
             (dict_set symbol
                (WarmUpIndicators h rows
                   (RegisterIndicators h resolution (SymbolData_init h symbol lookback))) d)
      else add_loop h lookback resolution tickers d)"

text \<open>
  \<^verbatim>\<open>OnSecuritiesChanged\<close> takes the frame that \<^verbatim>\<open>algorithm.History\<close> returns for the
  added symbols: a list of tickers with their rows of time and close price, empty when the
  frame is empty.
\<close>

definition OnSecuritiesChanged ::
  "Host \<Rightarrow> MagicFormulaAlphaModel \<Rightarrow> SecurityChanges \<Rightarrow> (string \<times> (datetime \<times> real) list) list \<Rightarrow>
   MagicFormulaAlphaModel" where
  "OnSecuritiesChanged h self changes history =
     (let self1 = self\<lparr>symbolDataBySymbol :=
                    remove_loop (RemovedSecurities changes) (symbolDataBySymbol self)\<rparr>
      in if history = [] then self1
         else self1\<lparr>symbolDataBySymbol :=
                add_loop h (mf_lookback self1) (mf_resolution self1) history
                  (symbolDataBySymbol self1)\<rparr>)"

text \<open>Every key of the bookkeeping dict holds a record made for that key.\<close>

definition keyed_by_symbol :: "(symbol, SymbolData) dict \<Rightarrow> bool" where
  "keyed_by_symbol d = list_all (\<lambda>p. sd_Symbol (snd p) = fst p) d"

section \<open>LowVolatilityStockSelectionAlpha.py\<close>

record LowVolatilitySelectionAlphaModel =
  lv_lookback :: int
  lv_numberOfStocks :: int
  lv_resolution :: Resolution
  lv_predictionInterval :: timedelta

text \<open>\<^verbatim>\<open>xs[0:n]\<close>: a negative bound counts from the end of the list.\<close>

definition py_slice_to :: "int \<Rightarrow> 'a list \<Rightarrow> 'a list" where
  "py_slice_to n xs = (if n < 0 then take (nat (int (length xs) + n)) xs else take (nat n) xs)"

text \<open>
  \<^verbatim>\<open>Update\<close> takes the values of \<^verbatim>\<open>algorithm.ActiveSecurities\<close> and the history frame
  as pandas hands it on: the columns of \<^verbatim>\<open>hist.close.unstack(level=0)\<close> in their order,
  each with its ticker and the value \<^verbatim>\<open>pct_change().std()\<close> has for it; the frame is
  empty when it has no column. The list \<^verbatim>\<open>stdDev\<close> is paired with \<^verbatim>\<open>symbols\<close> by
  position.
\<close>

definition LowVolatility_Update ::
  "LowVolatilitySelectionAlphaModel \<Rightarrow> Security list \<Rightarrow> (string \<times> real) list \<Rightarrow> Insight list" where
  "LowVolatility_Update self securities hist =
     (let symbols = map Symbol (filter HasData securities) in
      if hist = [] then []
      else
        let stdDev = map snd hist;
            symbolsVol = dict_from_pairs (zip symbols stdDev);
            number_of_stocks = min (int (length symbolsVol)) (lv_numberOfStocks self);
            lowVol = dict_from_pairs
                       (py_slice_to number_of_stocks (py_sorted snd False symbolsVol))
        in map (\<lambda>kv. Insight_Price (fst kv) (lv_predictionInterval self) Up (Some 0) None) lowVol)"

section \<open>MeanReversionLunchBreakAlpha.py\<close>

record MeanReversionLunchBreakAlphaModel =
  mr_lookback :: int
  mr_resolution :: Resolution
  mr_predictionInterval :: timedelta

definition py_truediv :: "real \<Rightarrow> real \<Rightarrow> py_error + real" where
  "py_truediv a b = (if b = 0 then Inl ZeroDivisionError else Inr (a / b))"

fun returns_loop :: "Security list \<Rightarrow> (symbol, real) dict \<Rightarrow> py_error + (symbol, real) dict" where
  "returns_loop [] symbolsReturn = Inr symbolsReturn"
| "returns_loop (security # rest) symbolsReturn =
     (if HasData security
      then (let open' = Open security in
            if open' \<noteq> 0
            then (case py_truediv (Close security) open' of
                    Inl e \<Rightarrow> Inl e
                  | Inr q \<Rightarrow> returns_loop rest (dict_set (Symbol security) (q - 1) symbolsReturn))
            else returns_loop rest symbolsReturn)
      else returns_loop rest symbolsReturn)"

text \<open>
  \<^verbatim>\<open>Update\<close> takes the hour of \<^verbatim>\<open>algorithm.Time\<close> and the values of
  \<^verbatim>\<open>algorithm.ActiveSecurities\<close>. Both branches of the second loop return, so only the
  first item of the dict is ever looked at.
\<close>

definition MeanReversion_Update ::
  "MeanReversionLunchBreakAlphaModel \<Rightarrow> int \<Rightarrow> Security list \<Rightarrow> py_error + Insight list" where
  "MeanReversion_Update self hour securities =
     (if hour \<noteq> 12 then Inr []
      else
        case returns_loop securities [] of
          Inl e \<Rightarrow> Inl e
        | Inr symbolsReturn \<Rightarrow>
            (case symbolsReturn of
               [] \<Rightarrow> Inr []
             | (key, value) # _ \<Rightarrow>
                 if value > 0
                 then Inr [Insight_Price key (mr_predictionInterval self) Down (Some 0) None]
                 else Inr [Insight_Price key (mr_predictionInterval self) Up (Some 0) None]))"

text \<open>The securities for which the first loop computes a return.\<close>

definition return_computed :: "Security \<Rightarrow> bool" where
  "return_computed s = (HasData s \<and> Open s \<noteq> 0)"

section \<open>TripleLeveragedETFPairVolatilityDecayAlpha.py\<close>

record ETFGroup =
  ultraLong :: symbol
  ultraShort :: symbol

record RebalancingTripleLeveragedETFAlphaModel =
  ETFgroups :: "ETFGroup list"
  Name :: string

definition one_day :: timedelta where
  "one_day = 86400000000"

fun etf_loop :: "ETFGroup list \<Rightarrow> Insight list \<Rightarrow> Insight list" where
  "etf_loop [] insights = insights"
| "etf_loop (grp # groups) insights =
     etf_loop groups
       ((insights @ [Insight_Price (ultraLong grp) one_day Down (Some 0) None])
          @ [Insight_Price (ultraShort grp) one_day Down (Some 0) None])"

text \<open>The market data of the tick is an argument that \<^verbatim>\<open>Update\<close> never reads.\<close>

definition TripleLeveraged_Update ::
  "RebalancingTripleLeveragedETFAlphaModel \<Rightarrow> 'data \<Rightarrow> Insight list" where
  "TripleLeveraged_Update self data = etf_loop (ETFgroups self) []"

section \<open>The behaviour as described\<close>

text \<open>The entry that the first loop of \<^verbatim>\<open>Update\<close> writes for a security.\<close>

definition computed_return :: "Security \<Rightarrow> symbol \<times> real" where
  "computed_return s = (Symbol s, Close s / Open s - 1)"

text \<open>
  The lunch-break update in the words of its description: nothing outside hour 12, else one
  insight for the first security whose return is computed, Down when its
  \<^verbatim>\<open>Close / Open - 1\<close> is positive and Up otherwise.
\<close>

definition MeanReversion_spec ::
  "MeanReversionLunchBreakAlphaModel \<Rightarrow> int \<Rightarrow> Security list \<Rightarrow> Insight list" where
  "MeanReversion_spec self hour securities =
     (if hour \<noteq> 12 then []
      else case filter return_computed securities of
             [] \<Rightarrow> []
           | s # _ \<Rightarrow>
               [Insight_Price (Symbol s) (mr_predictionInterval self)
                  (if Close s / Open s - 1 > 0 then Down else Up) (Some 0) None])"

text \<open>The symbols of the securities that a change of the universe removes.\<close>

definition removed_symbols :: "SecurityChanges \<Rightarrow> symbol set" where
  "removed_symbols changes = Symbol ` set (RemovedSecurities changes)"

text \<open>The two insights of one ETF group, as the description of \<^verbatim>\<open>Update\<close> has them.\<close>

definition group_insights :: "ETFGroup \<Rightarrow> Insight list" where
  "group_insights g =
     [Insight_Price (ultraLong g) one_day Down (Some 0) None,
      Insight_Price (ultraShort g) one_day Down (Some 0) None]"

text \<open>The insight that \<^verbatim>\<open>MagicFormulaAlphaModel.Update\<close> appends for an item of its dict.\<close>

definition emitted :: "timedelta \<Rightarrow> symbol \<times> SymbolData \<Rightarrow> Insight" where
  "emitted interval p =
     Insight_Price (fst p) interval Up (Some (Return (snd (CanEmit (snd p))))) None"

text \<open>No record of the dict has a sample that \<^verbatim>\<open>CanEmit\<close> has not seen.\<close>

definition no_new_sample :: "(symbol, SymbolData) dict \<Rightarrow> bool" where
  "no_new_sample d = list_all (\<lambda>p. sd_previous (snd p) = roc_Samples (sd_ROC (snd p))) d"

section \<open>Example inputs\<close>

definition example_coarse :: "CoarseFundamental list" where
  "example_coarse =
     [\<lparr>c_Symbol = ''AAPL'', c_EndTime_month = 3, c_HasFundamentalData = True,
        c_Volume = 100, c_Price = 10, c_DollarVolume = 1000\<rparr>,
      \<lparr>c_Symbol = ''SPY'', c_EndTime_month = 3, c_HasFundamentalData = False,
        c_Volume = 900, c_Price = 30, c_DollarVolume = 27000\<rparr>,
      \<lparr>c_Symbol = ''MSFT'', c_EndTime_month = 3, c_HasFundamentalData = True,
        c_Volume = 200, c_Price = 20, c_DollarVolume = 4000\<rparr>,
      \<lparr>c_Symbol = ''HALT'', c_EndTime_month = 3, c_HasFundamentalData = True,
        c_Volume = 0, c_Price = 5, c_DollarVolume = 0\<rparr>]"

definition example_universe :: UniverseModel where
  "example_universe = \<lparr>lastMonth = 3, dollarVolumeBySymbol = [(''IBM'', 7)], symbols = [''IBM'']\<rparr>"

definition example_etf_model :: RebalancingTripleLeveragedETFAlphaModel where
  "example_etf_model =
     \<lparr>ETFgroups = [\<lparr>ultraLong = ''UGLD'', ultraShort = ''DGLD''\<rparr>,
                   \<lparr>ultraLong = ''LABU'', ultraShort = ''LABD''\<rparr>,
                   \<lparr>ultraLong = ''SOXL'', ultraShort = ''SOXS''\<rparr>],
      Name = ''RebalancingTripleLeveragedETFAlphaModel''\<rparr>"

definition example_alpha_model :: MagicFormulaAlphaModel where
  "example_alpha_model =
     \<lparr>mf_lookback = 1, mf_resolution = Daily, mf_predictionInterval = 86400000000,
      symbolDataBySymbol =
        [(''AAPL'', \<lparr>sd_Symbol = ''AAPL'',
                     sd_ROC = \<lparr>roc_Samples = 2, roc_IsReady = True, roc_Current_Value = 1 / 100\<rparr>,
                     sd_Consolidator = Some 0, sd_previous = 1\<rparr>),
         (''MSFT'', \<lparr>sd_Symbol = ''MSFT'',
                     sd_ROC = \<lparr>roc_Samples = 2, roc_IsReady = True, roc_Current_Value = 2 / 100\<rparr>,
                     sd_Consolidator = Some 1, sd_previous = 2\<rparr>),
         (''IBM'', \<lparr>sd_Symbol = ''IBM'',
                    sd_ROC = \<lparr>roc_Samples = 1, roc_IsReady = False, roc_Current_Value = 0\<rparr>,
                    sd_Consolidator = Some 2, sd_previous = 0\<rparr>)]\<rparr>"

definition example_securities :: "Security list" where
  "example_securities =
     [\<lparr>Symbol = ''NODATA'', HasData = False, Open = 10, Close = 11\<rparr>,
      \<lparr>Symbol = ''ZERO'', HasData = True, Open = 0, Close = 5\<rparr>,
      \<lparr>Symbol = ''AAPL'', HasData = True, Open = 100, Close = 101\<rparr>,
      \<lparr>Symbol = ''MSFT'', HasData = True, Open = 50, Close = 49\<rparr>]"

definition example_zero_open :: "Security list" where
  "example_zero_open =
     [\<lparr>Symbol = ''ZERO'', HasData = True, Open = 0, Close = 5\<rparr>,
      \<lparr>Symbol = ''MSFT'', HasData = True, Open = 50, Close = 49\<rparr>]"

definition example_lunch_model :: MeanReversionLunchBreakAlphaModel where
  "example_lunch_model = \<lparr>mr_lookback = 1, mr_resolution = Hour, mr_predictionInterval = 3600000000\<rparr>"

definition example_host :: Host where
  "example_host =
     \<lparr>GetSymbol = (\<lambda>ticker. ticker),
      RateOfChange_new = (\<lambda>symbol lookback. \<lparr>roc_Samples = 0, roc_IsReady = False, roc_Current_Value = 0\<rparr>),
      ROC_Update = (\<lambda>roc t close. roc\<lparr>roc_Samples := roc_Samples roc + 1\<rparr>),
      ResolveConsolidator = (\<lambda>symbol resolution. 7)\<rparr>"

definition example_removal :: SecurityChanges where
  "example_removal =
     \<lparr>AddedSecurities = [],
      RemovedSecurities = [\<lparr>Symbol = ''AAPL'', HasData = True, Open = 100, Close = 101\<rparr>]\<rparr>"

definition example_readded :: SecurityChanges where
  "example_readded =
     \<lparr>AddedSecurities = [\<lparr>Symbol = ''AAPL'', HasData = True, Open = 100, Close = 101\<rparr>],
      RemovedSecurities = [\<lparr>Symbol = ''AAPL'', HasData = True, Open = 100, Close = 101\<rparr>]\<rparr>"

definition example_added :: SecurityChanges where
  "example_added =
     \<lparr>AddedSecurities = [\<lparr>Symbol = ''SPY'', HasData = True, Open = 300, Close = 301\<rparr>],
      RemovedSecurities = [\<lparr>Symbol = ''MSFT'', HasData = True, Open = 50, Close = 49\<rparr>]\<rparr>"

definition example_history :: "(string \<times> (datetime \<times> real) list) list" where
  "example_history = [(''SPY'', [(0, 300), (86400000000, 301)])]"

definition example_readded_history :: "(string \<times> (datetime \<times> real) list) list" where
  "example_readded_history = [(''AAPL'', [(0, 100)])]"

definition example_low_vol_model :: LowVolatilitySelectionAlphaModel where
  "example_low_vol_model =
     \<lparr>lv_lookback = 252, lv_numberOfStocks = 1, lv_resolution = Daily,
      lv_predictionInterval = 86400000000\<rparr>"








definition example_active :: "Security list" where
  "example_active =
     [\<lparr>Symbol = ''MSFT'', HasData = True, Open = 50, Close = 49\<rparr>,
      \<lparr>Symbol = ''AAPL'', HasData = True, Open = 100, Close = 101\<rparr>]"

definition example_volatility :: "(string \<times> real) list" where
  "example_volatility = [(''AAPL'', 1 / 100), (''MSFT'', 5 / 100)]"

section \<open>Facts about the containers\<close>

lemma dict_set_keys:
  "map fst (dict_set k v d) = (if k \<in> set (map fst d) then map fst d else map fst d @ [k])"
  by (induction d) auto

lemma dict_fold_keys:
  "map fst (fold (\<lambda>p d. dict_set (fst p) (snd p) d) ps d) =
     map fst d @ filter (\<lambda>k. k \<notin> set (map fst d)) (first_occurrences (map fst ps))"
proof (induction ps arbitrary: d)
  case Nil
  show ?case by simp
next
  case (Cons p ps)
  show ?case
  proof (cases "fst p \<in> set (map fst d)")
    case True
    have "filter (\<lambda>k. k \<notin> set (map fst d)) (filter (\<lambda>y. y \<noteq> fst p) (first_occurrences (map fst ps)))
          = filter (\<lambda>k. k \<notin> set (map fst d)) (first_occurrences (map fst ps))"
      using True by (auto intro!: filter_cong)
    with True show ?thesis
      by (simp add: Cons.IH dict_set_keys)
  next
    case False
    have "filter (\<lambda>k. k \<noteq> fst p \<and> k \<notin> fst ` set d) (first_occurrences (map fst ps))
          = filter (\<lambda>k. k \<notin> fst ` set d) (filter (\<lambda>y. y \<noteq> fst p) (first_occurrences (map fst ps)))"
      by (auto intro!: filter_cong)
    with False show ?thesis
      by (simp add: Cons.IH dict_set_keys conj_commute)
  qed
qed

lemma dict_from_pairs_keys:
  "dict_keys (dict_from_pairs ps) = first_occurrences (map fst ps)"
  by (simp add: dict_keys_def dict_from_pairs_def dict_fold_keys)

lemma set_first_occurrences [simp]: "set (first_occurrences xs) = set xs"
  by (induction xs) auto

lemma distinct_first_occurrences [simp]: "distinct (first_occurrences xs)"
  by (induction xs) auto

lemma length_first_occurrences: "length (first_occurrences xs) \<le> length xs"
proof (induction xs)
  case Nil
  show ?case by simp
next
  case (Cons x xs)
  have "length (filter (\<lambda>y. y \<noteq> x) (first_occurrences xs)) \<le> length (first_occurrences xs)"
    by (rule length_filter_le)
  from order_trans [OF this Cons.IH] show ?case by simp
qed

lemma first_occurrences_distinct: "distinct xs \<Longrightarrow> first_occurrences xs = xs"
proof (induction xs)
  case Nil
  show ?case by simp
next
  case (Cons x xs)
  then have "filter (\<lambda>y. y \<noteq> x) xs = xs"
    by (auto intro: filter_True)
  with Cons show ?case by simp
qed

section \<open>Facts about sorting\<close>

lemma py_sorted_reverse_neg:
  fixes key :: "'a \<Rightarrow> real"
  shows "py_sorted key True xs = sort_key (\<lambda>x. - key x) xs"
proof -
  let ?ys = "rev (sort_key key (rev xs))"
  have "sort_key (\<lambda>x. - key x) xs = ?ys"
  proof (rule properties_for_sort_key)
    show "mset ?ys = mset xs" by simp
  next
    fix k
    have "filter (\<lambda>x. key x = key k) (sort_key key (rev xs)) = filter (\<lambda>x. key x = key k) (rev xs)"
      by (rule sort_key_stable)
    then have "filter (\<lambda>x. key x = key k) ?ys = filter (\<lambda>x. key x = key k) xs"
      by (simp add: rev_filter [symmetric])
    moreover have "(\<lambda>x. - key k = - key x) = (\<lambda>x. key x = key k)"
      by auto
    ultimately show "filter (\<lambda>x. - key k = - key x) ?ys = filter (\<lambda>x. - key k = - key x) xs"
      by simp
  next
    have "sorted (map key (sort_key key (rev xs)))" by simp
    then have "sorted_wrt (\<lambda>x y. key x \<le> key y) (sort_key key (rev xs))"
      by (simp add: sorted_wrt_map)
    then have "sorted_wrt (\<lambda>x y. - key x \<le> - key y) ?ys"
      by (simp add: sorted_wrt_rev)
    then show "sorted (map (\<lambda>x. - key x) ?ys)"
      by (simp add: sorted_wrt_map)
  qed
  then show ?thesis by (simp add: py_sorted_def)
qed

lemma py_sorted_set: "set (py_sorted key r xs) = set xs"
  by (simp add: py_sorted_def)

lemma py_sorted_length: "length (py_sorted key r xs) = length xs"
  by (simp add: py_sorted_def)

section \<open>SelectCoarse\<close>

text \<open>
  Claim C7. When the coarse list is empty, or the month of its first element's
  \<^verbatim>\<open>EndTime\<close> equals the stored \<^verbatim>\<open>lastMonth\<close>, \<^verbatim>\<open>SelectCoarse\<close> returns the cached
  symbol list and the model is left as it was: \<^verbatim>\<open>lastMonth\<close>,
  \<^verbatim>\<open>dollarVolumeBySymbol\<close> and \<^verbatim>\<open>symbols\<close> are unchanged.
\<close>

theorem SelectCoarse_returns_cached:
  assumes "coarse = [] \<or> c_EndTime_month (hd coarse) = lastMonth self"
  shows "SelectCoarse self coarse = (symbols self, self)"
  using assms by (cases coarse) (auto simp: SelectCoarse_def Let_def)

theorem SelectCoarse_returns_cached_witness:
  "c_EndTime_month (hd example_coarse) = lastMonth example_universe
   \<and> SelectCoarse example_universe example_coarse = ([''IBM''], example_universe)
   \<and> SelectCoarse example_universe [] = ([''IBM''], example_universe)"
proof -
  have h: "c_EndTime_month (hd example_coarse) = lastMonth example_universe"
    by (simp add: example_coarse_def example_universe_def)
  from SelectCoarse_returns_cached [of example_coarse example_universe]
    SelectCoarse_returns_cached [of "[]" example_universe] h
  show ?thesis
    by (simp add: example_universe_def)
qed

lemma coarse_refresh_keys:
  assumes "coarse \<noteq> []" and "c_EndTime_month (hd coarse) \<noteq> lastMonth self"
  shows "fst (SelectCoarse self coarse) = first_occurrences (map c_Symbol (SelectCoarse_spec coarse))"
proof -
  obtain c0 cs where c: "coarse = c0 # cs"
    using assms(1) by (cases coarse) auto
  have e: "(\<lambda>x. c_HasFundamentalData x \<and> 0 < c_Volume x \<and> 0 < c_Price x) = coarse_eligible"
    by (auto simp: coarse_eligible_def)
  have "fst (SelectCoarse self coarse) =
      dict_keys (dict_from_pairs (map (\<lambda>i. (c_Symbol i, c_DollarVolume i))
         (take NumberOfSymbolsCoarse (py_sorted c_DollarVolume True (filter coarse_eligible coarse)))))"
    using assms(2) unfolding c SelectCoarse_def by (simp add: Let_def e)
  also have "\<dots> = first_occurrences (map c_Symbol (SelectCoarse_spec coarse))"
    by (simp add: dict_from_pairs_keys SelectCoarse_spec_def py_sorted_reverse_neg
        NumberOfSymbolsCoarse_def comp_def)
  finally show ?thesis .
qed

lemma coarse_spec_distinct:
  assumes "distinct (map c_Symbol coarse)"
  shows "distinct (map c_Symbol (SelectCoarse_spec coarse))"
proof -
  let ?s = "sort_key (\<lambda>x. - c_DollarVolume x) (filter coarse_eligible coarse)"
  have "distinct (map c_Symbol (filter coarse_eligible coarse))"
    using assms by (rule distinct_map_filter)
  moreover have "mset (map c_Symbol ?s) = mset (map c_Symbol (filter coarse_eligible coarse))"
    by simp
  ultimately have "distinct (map c_Symbol ?s)"
    by (metis mset_eq_imp_distinct_iff)
  then have "distinct (take 500 (map c_Symbol ?s))"
    by (rule distinct_take)
  then show ?thesis
    by (simp add: SelectCoarse_spec_def take_map)
qed

lemma coarse_spec_sorted:
  "sorted_wrt (\<lambda>x y. c_DollarVolume y \<le> c_DollarVolume x) (SelectCoarse_spec coarse)"
proof -
  have "sorted (map (\<lambda>x. - c_DollarVolume x)
      (sort_key (\<lambda>x. - c_DollarVolume x) (filter coarse_eligible coarse)))"
    by simp
  then have "sorted_wrt (\<lambda>x y. c_DollarVolume y \<le> c_DollarVolume x)
      (sort_key (\<lambda>x. - c_DollarVolume x) (filter coarse_eligible coarse))"
    by (simp add: sorted_wrt_map)
  then show ?thesis
    unfolding SelectCoarse_spec_def by (rule sorted_wrt_take)
qed

lemma coarse_spec_dominates:
  assumes "x \<in> set coarse" and "coarse_eligible x" and "x \<notin> set (SelectCoarse_spec coarse)"
    and "y \<in> set (SelectCoarse_spec coarse)"
  shows "c_DollarVolume x \<le> c_DollarVolume y"
proof -
  let ?s = "sort_key (\<lambda>x. - c_DollarVolume x) (filter coarse_eligible coarse)"
  have "sorted (map (\<lambda>x. - c_DollarVolume x) ?s)" by simp
  then have "sorted_wrt (\<lambda>x y. c_DollarVolume y \<le> c_DollarVolume x) (take 500 ?s @ drop 500 ?s)"
    by (simp add: sorted_wrt_map)
  then have d: "\<forall>a\<in>set (take 500 ?s). \<forall>b\<in>set (drop 500 ?s). c_DollarVolume b \<le> c_DollarVolume a"
    unfolding sorted_wrt_append by blast
  have "x \<in> set (take 500 ?s @ drop 500 ?s)"
    using assms(1,2) by simp
  then have "x \<in> set (drop 500 ?s)"
    using assms(3) unfolding SelectCoarse_spec_def set_append by blast
  with d assms(4) show ?thesis
    unfolding SelectCoarse_spec_def by blast
qed

lemma example_coarse_selection:
  "map c_Symbol (SelectCoarse_spec example_coarse) = [''MSFT'', ''AAPL'']"
  by (simp add: SelectCoarse_spec_def example_coarse_def coarse_eligible_def)

text \<open>
  Claim C3. When the coarse list is not empty and the month of its first element's
  \<^verbatim>\<open>EndTime\<close> differs from the stored \<^verbatim>\<open>lastMonth\<close>, \<^verbatim>\<open>SelectCoarse\<close> returns the
  symbols of at most 500 securities: those of the coarse entries with fundamental data,
  positive volume and positive price, sorted by dollar volume in descending order and cut to
  500. The returned list names every symbol once, in the order of its first entry; where
  the coarse entries have distinct symbols it is the list of symbols of the selection. The
  selection holds eligible entries of the input only, as many as there are up to 500, in
  descending order of dollar volume, and no eligible entry left out has a higher dollar
  volume than a selected one.
\<close>

theorem SelectCoarse_selects_by_dollar_volume:
  assumes "coarse \<noteq> []" and "c_EndTime_month (hd coarse) \<noteq> lastMonth self"
  shows "fst (SelectCoarse self coarse) = first_occurrences (map c_Symbol (SelectCoarse_spec coarse))
       \<and> (distinct (map c_Symbol coarse) \<longrightarrow>
            fst (SelectCoarse self coarse) = map c_Symbol (SelectCoarse_spec coarse))
       \<and> length (fst (SelectCoarse self coarse)) \<le> 500
       \<and> set (fst (SelectCoarse self coarse)) = c_Symbol ` set (SelectCoarse_spec coarse)
       \<and> set (SelectCoarse_spec coarse) \<subseteq> {x \<in> set coarse. coarse_eligible x}
       \<and> length (SelectCoarse_spec coarse) = min 500 (length (filter coarse_eligible coarse))
       \<and> sorted_wrt (\<lambda>x y. c_DollarVolume y \<le> c_DollarVolume x) (SelectCoarse_spec coarse)
       \<and> (\<forall>x\<in>set coarse. \<forall>y\<in>set (SelectCoarse_spec coarse).
            coarse_eligible x \<and> x \<notin> set (SelectCoarse_spec coarse) \<longrightarrow>
            c_DollarVolume x \<le> c_DollarVolume y)"
proof -
  have r: "fst (SelectCoarse self coarse) = first_occurrences (map c_Symbol (SelectCoarse_spec coarse))"
    using assms by (rule coarse_refresh_keys)
  have "length (first_occurrences (map c_Symbol (SelectCoarse_spec coarse)))
      \<le> length (map c_Symbol (SelectCoarse_spec coarse))"
    by (rule length_first_occurrences)
  also have "\<dots> \<le> 500"
    by (simp add: SelectCoarse_spec_def)
  finally have l: "length (fst (SelectCoarse self coarse)) \<le> 500"
    by (simp add: r)
  have s: "set (SelectCoarse_spec coarse) \<subseteq> {x \<in> set coarse. coarse_eligible x}"
  proof
    fix x assume "x \<in> set (SelectCoarse_spec coarse)"
    then have "x \<in> set (sort_key (\<lambda>x. - c_DollarVolume x) (filter coarse_eligible coarse))"
      unfolding SelectCoarse_spec_def by (rule in_set_takeD)
    then show "x \<in> {x \<in> set coarse. coarse_eligible x}" by simp
  qed
  have d: "distinct (map c_Symbol coarse) \<longrightarrow>
      fst (SelectCoarse self coarse) = map c_Symbol (SelectCoarse_spec coarse)"
    by (simp add: r first_occurrences_distinct coarse_spec_distinct)
  have i: "set (fst (SelectCoarse self coarse)) = c_Symbol ` set (SelectCoarse_spec coarse)"
    by (simp add: r)
  have n: "length (SelectCoarse_spec coarse) = min 500 (length (filter coarse_eligible coarse))"
    by (simp add: SelectCoarse_spec_def)
  have m: "\<forall>x\<in>set coarse. \<forall>y\<in>set (SelectCoarse_spec coarse).
      coarse_eligible x \<and> x \<notin> set (SelectCoarse_spec coarse) \<longrightarrow>
      c_DollarVolume x \<le> c_DollarVolume y"
    using coarse_spec_dominates [of _ coarse] by blast
  from r d l i s n coarse_spec_sorted [of coarse] m show ?thesis
    by (intro conjI)
qed

theorem SelectCoarse_selects_by_dollar_volume_witness:
  "example_coarse \<noteq> [] \<and> c_EndTime_month (hd example_coarse) \<noteq> lastMonth UniverseModel_init
   \<and> distinct (map c_Symbol example_coarse)
   \<and> fst (SelectCoarse UniverseModel_init example_coarse) = [''MSFT'', ''AAPL'']"
proof -
  have h1: "example_coarse \<noteq> []"
    by (simp add: example_coarse_def)
  have h2: "c_EndTime_month (hd example_coarse) \<noteq> lastMonth UniverseModel_init"
    by (simp add: example_coarse_def UniverseModel_init_def)
  have h3: "distinct (map c_Symbol example_coarse)"
    by (simp add: example_coarse_def)
  from SelectCoarse_selects_by_dollar_volume [OF h1 h2] h1 h2 h3 show ?thesis
    by (simp add: example_coarse_selection)
qed

section \<open>RebalancingTripleLeveragedETFAlphaModel.Update\<close>

lemma etf_loop_append:
  "etf_loop groups insights = insights @ concat (map group_insights groups)"
  by (induction groups arbitrary: insights) (simp_all add: group_insights_def)

text \<open>
  Claim C5. \<^verbatim>\<open>RebalancingTripleLeveragedETFAlphaModel.Update\<close> returns, for every ETF
  group in order, one Down insight for the ultra-long symbol and one Down insight for the
  ultra-short symbol, each with a one-day period and zero magnitude: two insights per
  group. For any two market-data arguments on the same model the returned lists are equal.
\<close>

theorem TripleLeveraged_Update_insights:
  "TripleLeveraged_Update self data = concat (map group_insights (ETFgroups self))
   \<and> TripleLeveraged_Update self data = TripleLeveraged_Update self data'
   \<and> length (TripleLeveraged_Update self data) = 2 * length (ETFgroups self)
   \<and> list_all (\<lambda>i. i_Direction i = Down \<and> i_Period i = one_day \<and> i_Magnitude i = Some 0)
        (TripleLeveraged_Update self data)"
proof -
  have e: "TripleLeveraged_Update self d = concat (map group_insights (ETFgroups self))" for d :: 'c
    by (simp add: TripleLeveraged_Update_def etf_loop_append)
  have e': "TripleLeveraged_Update self data' = concat (map group_insights (ETFgroups self))"
    by (simp add: TripleLeveraged_Update_def etf_loop_append)
  have l: "length (concat (map group_insights gs)) = 2 * length gs" for gs
    by (induction gs) (simp_all add: group_insights_def)
  have a: "list_all (\<lambda>i. i_Direction i = Down \<and> i_Period i = one_day \<and> i_Magnitude i = Some 0)
        (concat (map group_insights gs))" for gs
    by (induction gs) (simp_all add: group_insights_def Insight_Price_def)
  show ?thesis
    by (simp add: e e' l a)
qed

theorem TripleLeveraged_Update_insights_witness:
  "TripleLeveraged_Update example_etf_model (0::nat) =
     [Insight_Price ''UGLD'' 86400000000 Down (Some 0) None,
      Insight_Price ''DGLD'' 86400000000 Down (Some 0) None,
      Insight_Price ''LABU'' 86400000000 Down (Some 0) None,
      Insight_Price ''LABD'' 86400000000 Down (Some 0) None,
      Insight_Price ''SOXL'' 86400000000 Down (Some 0) None,
      Insight_Price ''SOXS'' 86400000000 Down (Some 0) None]
   \<and> TripleLeveraged_Update example_etf_model (0::nat) = TripleLeveraged_Update example_etf_model True"
proof -
  note t = TripleLeveraged_Update_insights [of example_etf_model "0::nat" True]
  from t have "TripleLeveraged_Update example_etf_model (0::nat)
      = concat (map group_insights (ETFgroups example_etf_model))"
    by (rule conjunct1)
  then have "TripleLeveraged_Update example_etf_model (0::nat) =
     [Insight_Price ''UGLD'' 86400000000 Down (Some 0) None,
      Insight_Price ''DGLD'' 86400000000 Down (Some 0) None,
      Insight_Price ''LABU'' 86400000000 Down (Some 0) None,
      Insight_Price ''LABD'' 86400000000 Down (Some 0) None,
      Insight_Price ''SOXL'' 86400000000 Down (Some 0) None,
      Insight_Price ''SOXS'' 86400000000 Down (Some 0) None]"
    by (simp add: example_etf_model_def group_insights_def one_day_def)
  moreover from t
  have "TripleLeveraged_Update example_etf_model (0::nat) = TripleLeveraged_Update example_etf_model True"
    by blast
  ultimately show ?thesis by blast
qed

section \<open>SymbolData.CanEmit and MagicFormulaAlphaModel.Update\<close>

lemma CanEmit_value:
  "fst (CanEmit sd) = (sd_previous sd \<noteq> roc_Samples (sd_ROC sd) \<and> roc_IsReady (sd_ROC sd))"
  by (simp add: CanEmit_def)

lemma CanEmit_record:
  "snd (CanEmit sd) = sd\<lparr>sd_previous := roc_Samples (sd_ROC sd)\<rparr>"
  by (simp add: CanEmit_def)

lemma CanEmit_twice: "fst (CanEmit (snd (CanEmit sd))) = False"
  by (simp add: CanEmit_value CanEmit_record)

lemma update_loop_result:
  "update_loop interval d insights =
     (insights @ map (emitted interval) (filter (\<lambda>p. fst (CanEmit (snd p))) d),
      map (\<lambda>p. (fst p, snd (CanEmit (snd p)))) d)"
proof (induction d arbitrary: insights)
  case Nil
  show ?case by simp
next
  case (Cons p d)
  obtain s sd where p: "p = (s, sd)" by (cases p)
  obtain e sd' where c: "CanEmit sd = (e, sd')" by (cases "CanEmit sd")
  show ?case
    by (simp add: p c Cons.IH emitted_def)
qed

lemma Update_insights:
  "fst (MagicFormula_Update self) =
     map (emitted (mf_predictionInterval self))
       (filter (\<lambda>p. fst (CanEmit (snd p))) (symbolDataBySymbol self))"
  by (simp add: MagicFormula_Update_def update_loop_result)

lemma Update_state:
  "snd (MagicFormula_Update self) =
     self\<lparr>symbolDataBySymbol := map (\<lambda>p. (fst p, snd (CanEmit (snd p)))) (symbolDataBySymbol self)\<rparr>"
  by (simp add: MagicFormula_Update_def update_loop_result)

lemma Update_twice: "fst (MagicFormula_Update (snd (MagicFormula_Update self))) = []"
  by (simp add: Update_insights Update_state filter_map comp_def CanEmit_twice)

lemma Update_no_new_sample:
  assumes "no_new_sample (symbolDataBySymbol self)"
  shows "fst (MagicFormula_Update self) = []"
proof -
  have "filter (\<lambda>p. fst (CanEmit (snd p))) (symbolDataBySymbol self) = []"
    using assms by (auto simp: no_new_sample_def filter_empty_conv list_all_iff CanEmit_value)
  then show ?thesis by (simp add: Update_insights)
qed

lemma Update_sees_samples: "no_new_sample (symbolDataBySymbol (snd (MagicFormula_Update self)))"
  by (simp add: no_new_sample_def Update_state list_all_iff CanEmit_record)

lemma distinct_filter_eq_le1:
  "distinct xs \<Longrightarrow> length (filter (\<lambda>k. k = s) xs) \<le> 1"
proof (induction xs)
  case Nil
  show ?case by simp
next
  case (Cons x xs)
  show ?case
  proof (cases "x = s")
    case True
    with Cons.prems have "filter (\<lambda>k. k = s) xs = []"
      by (auto simp: filter_empty_conv)
    with True show ?thesis by simp
  next
    case False
    with Cons show ?thesis by simp
  qed
qed

lemma Update_once_per_symbol:
  assumes "distinct (dict_keys (symbolDataBySymbol self))"
  shows "length (filter (\<lambda>i. i_Symbol i = s) (fst (MagicFormula_Update self))) \<le> 1"
proof -
  let ?sel = "filter (\<lambda>p. fst (CanEmit (snd p))) (symbolDataBySymbol self)"
  have m: "map i_Symbol (fst (MagicFormula_Update self)) = map fst ?sel"
    by (simp add: Update_insights emitted_def Insight_Price_def comp_def)
  have "distinct (map fst ?sel)"
    using assms unfolding dict_keys_def by (rule distinct_map_filter)
  then have "length (filter (\<lambda>k. k = s) (map fst ?sel)) \<le> 1"
    by (rule distinct_filter_eq_le1)
  moreover have "length (filter (\<lambda>i. i_Symbol i = s) (fst (MagicFormula_Update self)))
      = length (filter (\<lambda>k. k = s) (map i_Symbol (fst (MagicFormula_Update self))))"
    by (simp add: filter_map comp_def)
  ultimately show ?thesis by (simp add: m)
qed

text \<open>
  Claim C10. \<^verbatim>\<open>SymbolData.CanEmit\<close> is true only when \<^verbatim>\<open>ROC.Samples\<close> differs from the
  count stored at the previous check and the indicator is ready, and after every check the
  stored count is the current \<^verbatim>\<open>ROC.Samples\<close>. \<^verbatim>\<open>MagicFormulaAlphaModel.Update\<close> emits
  an insight exactly for the items whose \<^verbatim>\<open>CanEmit\<close> is true, at most one for a symbol.
  A second \<^verbatim>\<open>Update\<close> right after a first emits nothing, and so does any \<^verbatim>\<open>Update\<close>
  on a dict none of whose indicators has a sample that was not seen; every \<^verbatim>\<open>Update\<close>
  leaves the dict in that condition.
\<close>

theorem CanEmit_once_per_sample:
  "fst (CanEmit sd) = (sd_previous sd \<noteq> roc_Samples (sd_ROC sd) \<and> roc_IsReady (sd_ROC sd))
   \<and> snd (CanEmit sd) = sd\<lparr>sd_previous := roc_Samples (sd_ROC sd)\<rparr>
   \<and> fst (MagicFormula_Update self) =
       map (emitted (mf_predictionInterval self))
         (filter (\<lambda>p. fst (CanEmit (snd p))) (symbolDataBySymbol self))
   \<and> (distinct (dict_keys (symbolDataBySymbol self)) \<longrightarrow>
        length (filter (\<lambda>i. i_Symbol i = s) (fst (MagicFormula_Update self))) \<le> 1)
   \<and> fst (MagicFormula_Update (snd (MagicFormula_Update self))) = []
   \<and> (no_new_sample (symbolDataBySymbol self) \<longrightarrow> fst (MagicFormula_Update self) = [])
   \<and> no_new_sample (symbolDataBySymbol (snd (MagicFormula_Update self)))"
  using CanEmit_value [of sd] CanEmit_record [of sd] Update_insights [of self]
    Update_once_per_symbol [of self s] Update_twice [of self] Update_no_new_sample [of self]
    Update_sees_samples [of self]
  by blast

theorem CanEmit_once_per_sample_witness:
  "distinct (dict_keys (symbolDataBySymbol example_alpha_model))
   \<and> fst (MagicFormula_Update example_alpha_model) =
       [Insight_Price ''AAPL'' 86400000000 Up (Some (1 / 100)) None]
   \<and> fst (MagicFormula_Update (snd (MagicFormula_Update example_alpha_model))) = []"
proof -
  note t = CanEmit_once_per_sample
    [of "snd (hd (symbolDataBySymbol example_alpha_model))" example_alpha_model "''AAPL''"]
  have d: "distinct (dict_keys (symbolDataBySymbol example_alpha_model))"
    by (simp add: example_alpha_model_def dict_keys_def)
  from t have "fst (MagicFormula_Update example_alpha_model) =
       map (emitted (mf_predictionInterval example_alpha_model))
         (filter (\<lambda>p. fst (CanEmit (snd p))) (symbolDataBySymbol example_alpha_model))"
    by blast
  then have "fst (MagicFormula_Update example_alpha_model) =
       [Insight_Price ''AAPL'' 86400000000 Up (Some (1 / 100)) None]"
    by (simp add: example_alpha_model_def emitted_def CanEmit_def Return_def)
  moreover from t
  have "fst (MagicFormula_Update (snd (MagicFormula_Update example_alpha_model))) = []"
    by blast
  ultimately show ?thesis using d by blast
qed

section \<open>MeanReversionLunchBreakAlphaModel.Update\<close>

lemma returns_loop_fold:
  "returns_loop securities d =
     Inr (fold (\<lambda>p d. dict_set (fst p) (snd p) d)
            (map computed_return (filter return_computed securities)) d)"
  by (induction securities arbitrary: d)
     (simp_all add: return_computed_def computed_return_def py_truediv_def)

lemma returns_loop_dict:
  "returns_loop securities [] =
     Inr (dict_from_pairs (map computed_return (filter return_computed securities)))"
  by (simp add: returns_loop_fold dict_from_pairs_def)

lemma dict_set_fresh: "k \<notin> fst ` set d \<Longrightarrow> dict_set k v d = d @ [(k, v)]"
  by (induction d) auto

lemma dict_fold_distinct:
  "distinct (map fst (d @ ps)) \<Longrightarrow> fold (\<lambda>p d. dict_set (fst p) (snd p) d) ps d = d @ ps"
proof (induction ps arbitrary: d)
  case Nil
  show ?case by simp
next
  case (Cons p ps)
  from Cons.prems have f: "fst p \<notin> fst ` set d" by auto
  from Cons.prems have "distinct (map fst ((d @ [p]) @ ps))" by simp
  then have "fold (\<lambda>p d. dict_set (fst p) (snd p) d) ps (d @ [p]) = (d @ [p]) @ ps"
    by (rule Cons.IH)
  with f show ?case by (simp add: dict_set_fresh)
qed

lemma dict_from_pairs_distinct: "distinct (map fst ps) \<Longrightarrow> dict_from_pairs ps = ps"
  using dict_fold_distinct [of "[]" ps] by (simp add: dict_from_pairs_def)

lemma lunch_Update_Inr:
  "\<exists>insights. MeanReversion_Update self hour securities = Inr insights \<and> length insights \<le> 1"
  by (auto simp: MeanReversion_Update_def returns_loop_dict split: list.splits)

lemma lunch_Update_off_hour: "hour \<noteq> 12 \<Longrightarrow> MeanReversion_Update self hour securities = Inr []"
  by (simp add: MeanReversion_Update_def)

lemma lunch_Update_distinct:
  assumes "distinct (map Symbol securities)"
  shows "MeanReversion_Update self hour securities = Inr (MeanReversion_spec self hour securities)"
proof -
  let ?c = "filter return_computed securities"
  have "distinct (map Symbol ?c)"
    using assms by (rule distinct_map_filter)
  then have "distinct (map fst (map computed_return ?c))"
    by (simp add: comp_def computed_return_def)
  then have "dict_from_pairs (map computed_return ?c) = map computed_return ?c"
    by (rule dict_from_pairs_distinct)
  then show ?thesis
    by (cases ?c)
       (simp_all add: MeanReversion_Update_def MeanReversion_spec_def returns_loop_dict
         computed_return_def)
qed

lemma lunch_Update_symbols:
  "MeanReversion_Update self 12 securities = Inr insights \<Longrightarrow>
   map i_Symbol insights = map Symbol (take 1 (filter return_computed securities))"
proof -
  assume a: "MeanReversion_Update self 12 securities = Inr insights"
  let ?ps = "map computed_return (filter return_computed securities)"
  have k: "map fst (dict_from_pairs ?ps) = first_occurrences (map fst ?ps)"
    using dict_from_pairs_keys [of ?ps] by (simp add: dict_keys_def)
  show ?thesis
  proof (cases "filter return_computed securities")
    case Nil
    with a show ?thesis
      by (auto simp: MeanReversion_Update_def returns_loop_dict dict_from_pairs_def)
  next
    case (Cons s rest)
    with k obtain v d where d: "dict_from_pairs ?ps = (Symbol s, v) # d"
      by (cases "dict_from_pairs ?ps") (auto simp: computed_return_def)
    with a Cons show ?thesis
      by (auto simp: MeanReversion_Update_def returns_loop_dict Insight_Price_def split: if_splits)
  qed
qed

lemma lunch_Update_insight_origin:
  assumes "MeanReversion_Update self hour securities = Inr insights" and "i \<in> set insights"
  shows "\<exists>s\<in>set securities. Symbol s = i_Symbol i \<and> HasData s \<and> Open s \<noteq> 0"
proof (cases "hour = 12")
  case False
  with assms show ?thesis by (simp add: lunch_Update_off_hour)
next
  case True
  with assms(1) have "map i_Symbol insights = map Symbol (take 1 (filter return_computed securities))"
    by (simp add: lunch_Update_symbols)
  moreover from assms(2) have "i_Symbol i \<in> set (map i_Symbol insights)" by simp
  ultimately have "i_Symbol i \<in> Symbol ` set (take 1 (filter return_computed securities))"
    by simp
  then obtain s where "s \<in> set (take 1 (filter return_computed securities))" and e: "Symbol s = i_Symbol i"
    by auto
  then have "s \<in> set (filter return_computed securities)"
    by (auto dest: in_set_takeD)
  with e show ?thesis
    by (auto simp: return_computed_def)
qed

lemma lunch_Update_zero_open_excluded:
  assumes "distinct (map Symbol securities)"
    and "MeanReversion_Update self hour securities = Inr insights"
    and "s \<in> set securities" and "Open s = 0"
  shows "Symbol s \<notin> i_Symbol ` set insights"
proof
  assume "Symbol s \<in> i_Symbol ` set insights"
  then obtain i where i: "i \<in> set insights" and e: "i_Symbol i = Symbol s" by auto
  from lunch_Update_insight_origin [OF assms(2) i] obtain s'
    where s': "s' \<in> set securities" "Symbol s' = i_Symbol i" "Open s' \<noteq> 0" by blast
  from assms(1) have "inj_on Symbol (set securities)"
    by (simp add: distinct_map)
  with s'(1,2) e assms(3) have "s' = s"
    by (auto dest: inj_onD)
  with s'(3) assms(4) show False by simp
qed

text \<open>
  Claim C6. \<^verbatim>\<open>MeanReversionLunchBreakAlphaModel.Update\<close> returns a list of at most one
  insight. It returns the empty list whenever the hour of the algorithm time is not 12.
  At hour 12 the list has an insight only for the first security whose return was
  computed, and for active securities with distinct symbols it is the single insight for
  that security, Down if its \<^verbatim>\<open>Close / Open - 1\<close> is greater than 0 and Up otherwise,
  however many securities have data.
\<close>

theorem MeanReversion_Update_single_insight:
  "(\<exists>insights. MeanReversion_Update self hour securities = Inr insights \<and> length insights \<le> 1)
   \<and> (hour \<noteq> 12 \<longrightarrow> MeanReversion_Update self hour securities = Inr [])
   \<and> (\<forall>insights. MeanReversion_Update self 12 securities = Inr insights \<longrightarrow>
         map i_Symbol insights = map Symbol (take 1 (filter return_computed securities)))
   \<and> (distinct (map Symbol securities) \<longrightarrow>
         MeanReversion_Update self hour securities = Inr (MeanReversion_spec self hour securities))"
  using lunch_Update_Inr [of self hour securities] lunch_Update_off_hour [of hour self securities]
    lunch_Update_symbols [of self securities] lunch_Update_distinct [of securities self hour]
  by blast

theorem MeanReversion_Update_single_insight_witness:
  "distinct (map Symbol example_securities)
   \<and> MeanReversion_Update example_lunch_model 12 example_securities =
       Inr [Insight_Price ''AAPL'' 3600000000 Down (Some 0) None]
   \<and> MeanReversion_Update example_lunch_model 11 example_securities = Inr []"
proof -
  have d: "distinct (map Symbol example_securities)"
    by (simp add: example_securities_def)
  from MeanReversion_Update_single_insight [of example_lunch_model 12 example_securities] d
  have "MeanReversion_Update example_lunch_model 12 example_securities =
      Inr (MeanReversion_spec example_lunch_model 12 example_securities)"
    by blast
  then have "MeanReversion_Update example_lunch_model 12 example_securities =
       Inr [Insight_Price ''AAPL'' 3600000000 Down (Some 0) None]"
    by (simp add: MeanReversion_spec_def example_securities_def example_lunch_model_def
        return_computed_def)
  moreover from MeanReversion_Update_single_insight [of example_lunch_model 11 example_securities]
  have "MeanReversion_Update example_lunch_model 11 example_securities = Inr []"
    by simp
  ultimately show ?thesis using d by blast
qed

text \<open>
  Claim C9. \<^verbatim>\<open>MeanReversionLunchBreakAlphaModel.Update\<close> divides by the open price only
  of securities whose open price is not zero, so it never raises \<^verbatim>\<open>ZeroDivisionError\<close>:
  it returns a list for every input. The dict of returns has entries only for securities
  with data and a nonzero open price, every insight is for the symbol of such a security,
  and among active securities with distinct symbols one with a zero open price receives no
  insight.
\<close>

theorem MeanReversion_Update_no_zero_division:
  "(\<exists>insights. MeanReversion_Update self hour securities = Inr insights)
   \<and> returns_loop securities [] =
       Inr (dict_from_pairs (map computed_return (filter return_computed securities)))
   \<and> (\<forall>insights i. MeanReversion_Update self hour securities = Inr insights \<and> i \<in> set insights \<longrightarrow>
         (\<exists>s\<in>set securities. Symbol s = i_Symbol i \<and> HasData s \<and> Open s \<noteq> 0))
   \<and> (distinct (map Symbol securities) \<longrightarrow>
         (\<forall>insights s. MeanReversion_Update self hour securities = Inr insights
             \<and> s \<in> set securities \<and> Open s = 0 \<longrightarrow> Symbol s \<notin> i_Symbol ` set insights))"
proof -
  have a: "\<exists>insights. MeanReversion_Update self hour securities = Inr insights"
    using lunch_Update_Inr [of self hour securities] by blast
  have b: "\<forall>insights i. MeanReversion_Update self hour securities = Inr insights \<and> i \<in> set insights \<longrightarrow>
         (\<exists>s\<in>set securities. Symbol s = i_Symbol i \<and> HasData s \<and> Open s \<noteq> 0)"
    using lunch_Update_insight_origin [of self hour securities] by blast
  have c: "distinct (map Symbol securities) \<longrightarrow>
         (\<forall>insights s. MeanReversion_Update self hour securities = Inr insights
             \<and> s \<in> set securities \<and> Open s = 0 \<longrightarrow> Symbol s \<notin> i_Symbol ` set insights)"
    using lunch_Update_zero_open_excluded [of securities self hour] by blast
  from a returns_loop_dict [of securities] b c show ?thesis
    by (intro conjI)
qed

theorem MeanReversion_Update_no_zero_division_witness:
  "distinct (map Symbol example_zero_open)
   \<and> returns_loop example_zero_open [] = Inr [(''MSFT'', - (1 / 50))]
   \<and> MeanReversion_Update example_lunch_model 12 example_zero_open =
       Inr [Insight_Price ''MSFT'' 3600000000 Up (Some 0) None]
   \<and> ''ZERO'' \<notin> i_Symbol ` set [Insight_Price ''MSFT'' 3600000000 Up (Some 0) None]"
proof -
  note t = MeanReversion_Update_no_zero_division [of example_lunch_model 12 example_zero_open]
  have d: "distinct (map Symbol example_zero_open)"
    by (simp add: example_zero_open_def)
  from t have "returns_loop example_zero_open [] =
      Inr (dict_from_pairs (map computed_return (filter return_computed example_zero_open)))"
    by blast
  then have r: "returns_loop example_zero_open [] = Inr [(''MSFT'', - (1 / 50))]"
    by (simp add: example_zero_open_def return_computed_def computed_return_def dict_from_pairs_def)
  then have u: "MeanReversion_Update example_lunch_model 12 example_zero_open =
       Inr [Insight_Price ''MSFT'' 3600000000 Up (Some 0) None]"
    by (simp add: MeanReversion_Update_def example_lunch_model_def)
  have z: "\<lparr>Symbol = ''ZERO'', HasData = True, Open = 0, Close = 5\<rparr> \<in> set example_zero_open"
    by (simp add: example_zero_open_def)
  from t d u z have "Symbol \<lparr>Symbol = ''ZERO'', HasData = True, Open = 0, Close = 5\<rparr>
      \<notin> i_Symbol ` set [Insight_Price ''MSFT'' 3600000000 Up (Some 0) None]"
    by (elim conjE) (drule mp, assumption, auto)
  then show ?thesis using d r u by simp
qed

section \<open>MagicFormulaAlphaModel.OnSecuritiesChanged\<close>

lemma remove_loop_filter:
  "remove_loop removed d = filter (\<lambda>p. fst p \<notin> Symbol ` set removed) d"
proof (induction removed arbitrary: d)
  case Nil
  show ?case by simp
next
  case (Cons r removed)
  have "filter (\<lambda>p. fst p \<notin> Symbol ` set removed) (filter (\<lambda>p. fst p \<noteq> Symbol r) d)
      = filter (\<lambda>p. fst p \<notin> Symbol ` set (r # removed)) d"
    by (auto intro!: filter_cong)
  then show ?case
    by (simp add: Cons.IH dict_pop_def)
qed

lemma dict_contains_keys: "dict_contains k d = (k \<in> fst ` set d)"
  by (simp add: dict_contains_def map_of_eq_None_iff)

lemma fresh_record_symbol:
  "sd_Symbol (WarmUpIndicators h rows (RegisterIndicators h resolution (SymbolData_init h symbol lookback))) = symbol"
  by (simp add: WarmUpIndicators_def RegisterIndicators_def SymbolData_init_def)

lemma add_loop_extends:
  "\<exists>new. add_loop h lookback resolution history d = d @ new
      \<and> fst ` set new \<subseteq> GetSymbol h ` fst ` set history
      \<and> keyed_by_symbol new
      \<and> distinct (map fst new) \<and> fst ` set new \<inter> fst ` set d = {}"
proof (induction history arbitrary: d)
  case Nil
  show ?case by (simp add: keyed_by_symbol_def)
next
  case (Cons p history)
  obtain ticker rows where p: "p = (ticker, rows)" by (cases p)
  let ?symbol = "GetSymbol h ticker"
  let ?sd = "WarmUpIndicators h rows (RegisterIndicators h resolution (SymbolData_init h ?symbol lookback))"
  show ?case
  proof (cases "dict_contains ?symbol d")
    case True
    from Cons.IH [of d] obtain new where
      "add_loop h lookback resolution history d = d @ new"
      "fst ` set new \<subseteq> GetSymbol h ` fst ` set history" "keyed_by_symbol new"
      "distinct (map fst new)" "fst ` set new \<inter> fst ` set d = {}"
      by blast
    with True show ?thesis
      by (auto simp: p Let_def)
  next
    case False
    then have f: "?symbol \<notin> fst ` set d"
      by (simp add: dict_contains_keys)
    from Cons.IH [of "d @ [(?symbol, ?sd)]"] obtain new where n:
      "add_loop h lookback resolution history (d @ [(?symbol, ?sd)]) = (d @ [(?symbol, ?sd)]) @ new"
      "fst ` set new \<subseteq> GetSymbol h ` fst ` set history" "keyed_by_symbol new"
      "distinct (map fst new)" "fst ` set new \<inter> fst ` set (d @ [(?symbol, ?sd)]) = {}"
      by blast
    have a: "add_loop h lookback resolution (p # history) d = d @ ((?symbol, ?sd) # new)"
      using False f n(1) by (simp add: p dict_set_fresh Let_def)
    have b: "fst ` set ((?symbol, ?sd) # new) \<subseteq> GetSymbol h ` fst ` set (p # history)"
      using n(2) by (auto simp: p)
    have c: "keyed_by_symbol ((?symbol, ?sd) # new)"
      using n(3) by (simp add: keyed_by_symbol_def fresh_record_symbol)
    have e: "distinct (map fst ((?symbol, ?sd) # new))"
      using n(4,5) by auto
    have g: "fst ` set ((?symbol, ?sd) # new) \<inter> fst ` set d = {}"
      using n(5) f by auto
    from a b c e g show ?thesis by blast
  qed
qed

lemma OnSecuritiesChanged_empty_history:
  "OnSecuritiesChanged h self changes [] =
     self\<lparr>symbolDataBySymbol :=
        filter (\<lambda>p. fst p \<notin> removed_symbols changes) (symbolDataBySymbol self)\<rparr>"
  by (simp add: OnSecuritiesChanged_def remove_loop_filter removed_symbols_def)

lemma OnSecuritiesChanged_dict:
  "\<exists>new. symbolDataBySymbol (OnSecuritiesChanged h self changes history) =
       filter (\<lambda>p. fst p \<notin> removed_symbols changes) (symbolDataBySymbol self) @ new
     \<and> fst ` set new \<subseteq> GetSymbol h ` fst ` set history
     \<and> keyed_by_symbol new \<and> distinct (map fst new)
     \<and> fst ` set new \<inter> fst ` set (filter (\<lambda>p. fst p \<notin> removed_symbols changes) (symbolDataBySymbol self)) = {}"
proof (cases "history = []")
  case True
  then show ?thesis
    by (simp add: OnSecuritiesChanged_empty_history keyed_by_symbol_def)
next
  case False
  let ?d = "filter (\<lambda>p. fst p \<notin> removed_symbols changes) (symbolDataBySymbol self)"
  from False have "symbolDataBySymbol (OnSecuritiesChanged h self changes history) =
      add_loop h (mf_lookback self) (mf_resolution self) history ?d"
    by (simp add: OnSecuritiesChanged_def remove_loop_filter removed_symbols_def)
  with add_loop_extends [of h "mf_lookback self" "mf_resolution self" history ?d]
  show ?thesis by simp
qed

lemma CanEmit_symbol: "sd_Symbol (snd (CanEmit sd)) = sd_Symbol sd"
  by (simp add: CanEmit_def)

lemma keyed_append: "keyed_by_symbol (xs @ ys) = (keyed_by_symbol xs \<and> keyed_by_symbol ys)"
  by (simp add: keyed_by_symbol_def)

lemma keyed_filter: "keyed_by_symbol d \<Longrightarrow> keyed_by_symbol (filter P d)"
  by (simp add: keyed_by_symbol_def list_all_iff)

lemma OnSecuritiesChanged_keyed:
  assumes "keyed_by_symbol (symbolDataBySymbol self)"
  shows "keyed_by_symbol (symbolDataBySymbol (OnSecuritiesChanged h self changes history))"
proof -
  from OnSecuritiesChanged_dict [of h self changes history] obtain new where
    "symbolDataBySymbol (OnSecuritiesChanged h self changes history) =
       filter (\<lambda>p. fst p \<notin> removed_symbols changes) (symbolDataBySymbol self) @ new"
    and "keyed_by_symbol new"
    by blast
  with assms show ?thesis
    by (simp add: keyed_append keyed_filter)
qed

lemma Update_keyed:
  assumes "keyed_by_symbol (symbolDataBySymbol self)"
  shows "keyed_by_symbol (symbolDataBySymbol (snd (MagicFormula_Update self)))"
  using assms by (simp add: Update_state keyed_by_symbol_def list_all_iff CanEmit_symbol)

lemma OnSecuritiesChanged_distinct:
  assumes "distinct (dict_keys (symbolDataBySymbol self))"
  shows "distinct (dict_keys (symbolDataBySymbol (OnSecuritiesChanged h self changes history)))"
proof -
  let ?d = "filter (\<lambda>p. fst p \<notin> removed_symbols changes) (symbolDataBySymbol self)"
  from OnSecuritiesChanged_dict [of h self changes history] obtain new where n:
    "symbolDataBySymbol (OnSecuritiesChanged h self changes history) = ?d @ new"
    "distinct (map fst new)" "fst ` set new \<inter> fst ` set ?d = {}"
    by blast
  have "distinct (map fst ?d)"
    using assms unfolding dict_keys_def by (rule distinct_map_filter)
  with n show ?thesis
    by (auto simp: dict_keys_def)
qed

lemma OnSecuritiesChanged_removed:
  assumes "s \<in> removed_symbols changes" and "s \<notin> GetSymbol h ` fst ` set history"
  shows "s \<notin> set (dict_keys (symbolDataBySymbol (OnSecuritiesChanged h self changes history)))"
proof -
  let ?d = "filter (\<lambda>p. fst p \<notin> removed_symbols changes) (symbolDataBySymbol self)"
  from OnSecuritiesChanged_dict [of h self changes history] obtain new where n:
    "symbolDataBySymbol (OnSecuritiesChanged h self changes history) = ?d @ new"
    "fst ` set new \<subseteq> GetSymbol h ` fst ` set history"
    by blast
  from assms(1) have "s \<notin> fst ` set ?d" by auto
  moreover from assms(2) n(2) have "s \<notin> fst ` set new" by blast
  ultimately show ?thesis
    by (simp add: n(1) dict_keys_def image_Un)
qed

lemma map_of_filter_keys:
  "P k \<Longrightarrow> map_of (filter (\<lambda>p. P (fst p)) d) k = map_of d k"
  by (induction d) auto

lemma OnSecuritiesChanged_keeps:
  assumes "map_of (symbolDataBySymbol self) s = Some v" and "s \<notin> removed_symbols changes"
  shows "map_of (symbolDataBySymbol (OnSecuritiesChanged h self changes history)) s = Some v"
proof -
  let ?d = "filter (\<lambda>p. fst p \<notin> removed_symbols changes) (symbolDataBySymbol self)"
  from OnSecuritiesChanged_dict [of h self changes history] obtain new where n:
    "symbolDataBySymbol (OnSecuritiesChanged h self changes history) = ?d @ new"
    by blast
  from assms have "map_of ?d s = Some v"
    by (simp add: map_of_filter_keys [of "\<lambda>k. k \<notin> removed_symbols changes"])
  then show ?thesis
    by (simp add: n map_add_Some_iff)
qed

text \<open>
  Claim C4, as the code has it. When the history frame is empty,
  \<^verbatim>\<open>LowVolatilitySelectionAlphaModel.Update\<close> returns the empty insight list, and
  \<^verbatim>\<open>MagicFormulaAlphaModel.OnSecuritiesChanged\<close> returns after its first loop: the
  dict is the old one without the symbols of the removed securities, so no entry is added
  and the entries that stay are the old ones, and every other field of the model is
  unchanged. The model is unchanged as a whole when no removed security was tracked.
\<close>

theorem empty_history_skips_additions:
  "LowVolatility_Update lv securities [] = []
   \<and> OnSecuritiesChanged h self changes [] =
       self\<lparr>symbolDataBySymbol :=
          filter (\<lambda>p. fst p \<notin> removed_symbols changes) (symbolDataBySymbol self)\<rparr>
   \<and> set (symbolDataBySymbol (OnSecuritiesChanged h self changes [])) \<subseteq> set (symbolDataBySymbol self)
   \<and> (removed_symbols changes \<inter> set (dict_keys (symbolDataBySymbol self)) = {} \<longrightarrow>
        OnSecuritiesChanged h self changes [] = self)"
proof -
  have a: "LowVolatility_Update lv securities [] = []"
    by (simp add: LowVolatility_Update_def)
  note b = OnSecuritiesChanged_empty_history [of h self changes]
  have c: "set (symbolDataBySymbol (OnSecuritiesChanged h self changes [])) \<subseteq> set (symbolDataBySymbol self)"
    by (auto simp: b)
  have d: "removed_symbols changes \<inter> set (dict_keys (symbolDataBySymbol self)) = {} \<longrightarrow>
        OnSecuritiesChanged h self changes [] = self"
  proof
    assume "removed_symbols changes \<inter> set (dict_keys (symbolDataBySymbol self)) = {}"
    then have "\<forall>p\<in>set (symbolDataBySymbol self). fst p \<notin> removed_symbols changes"
      by (auto simp: dict_keys_def)
    then have "filter (\<lambda>p. fst p \<notin> removed_symbols changes) (symbolDataBySymbol self)
        = symbolDataBySymbol self"
      by (simp add: filter_id_conv)
    then show "OnSecuritiesChanged h self changes [] = self"
      by (simp add: b)
  qed
  from a b c d show ?thesis by (intro conjI)
qed

theorem empty_history_skips_additions_witness:
  "removed_symbols \<lparr>AddedSecurities = [], RemovedSecurities = []\<rparr>
       \<inter> set (dict_keys (symbolDataBySymbol example_alpha_model)) = {}
   \<and> OnSecuritiesChanged example_host example_alpha_model
        \<lparr>AddedSecurities = [], RemovedSecurities = []\<rparr> [] = example_alpha_model
   \<and> dict_keys (symbolDataBySymbol (OnSecuritiesChanged example_host example_alpha_model example_added []))
       = [''AAPL'', ''IBM'']
   \<and> LowVolatility_Update example_low_vol_model example_securities [] = []"
proof -
  let ?none = "\<lparr>AddedSecurities = [], RemovedSecurities = []\<rparr>"
  have h: "removed_symbols ?none \<inter> set (dict_keys (symbolDataBySymbol example_alpha_model)) = {}"
    by (simp add: removed_symbols_def)
  note t1 = empty_history_skips_additions
    [of example_low_vol_model example_securities example_host example_alpha_model ?none]
  note t2 = empty_history_skips_additions
    [of example_low_vol_model example_securities example_host example_alpha_model example_added]
  from t1 have "removed_symbols ?none \<inter> set (dict_keys (symbolDataBySymbol example_alpha_model)) = {} \<longrightarrow>
      OnSecuritiesChanged example_host example_alpha_model ?none [] = example_alpha_model"
    by (elim conjE)
  with h have a: "OnSecuritiesChanged example_host example_alpha_model ?none [] = example_alpha_model"
    by (rule rev_mp)
  from t2 have "OnSecuritiesChanged example_host example_alpha_model example_added [] =
       example_alpha_model\<lparr>symbolDataBySymbol :=
          filter (\<lambda>p. fst p \<notin> removed_symbols example_added) (symbolDataBySymbol example_alpha_model)\<rparr>"
    by (elim conjE)
  then have b: "dict_keys (symbolDataBySymbol
      (OnSecuritiesChanged example_host example_alpha_model example_added [])) = [''AAPL'', ''IBM'']"
    by (simp add: example_alpha_model_def example_added_def removed_symbols_def dict_keys_def)
  from t1 have c: "LowVolatility_Update example_low_vol_model example_securities [] = []"
    by (elim conjE)
  from h a b c show ?thesis by (intro conjI)
qed

text \<open>
  The statement of claim C4 that an empty history means no state change fails: the removed
  securities are popped before the history is looked at. Here a tracked security is
  removed and the frame is empty.
\<close>

theorem empty_history_state_change_counterexample:
  "dict_keys (symbolDataBySymbol example_alpha_model) = [''AAPL'', ''MSFT'', ''IBM'']
   \<and> dict_keys (symbolDataBySymbol
        (OnSecuritiesChanged example_host example_alpha_model example_removal [])) = [''MSFT'', ''IBM'']
   \<and> OnSecuritiesChanged example_host example_alpha_model example_removal [] \<noteq> example_alpha_model"
proof -
  have a: "dict_keys (symbolDataBySymbol example_alpha_model) = [''AAPL'', ''MSFT'', ''IBM'']"
    by (simp add: example_alpha_model_def dict_keys_def)
  have b: "dict_keys (symbolDataBySymbol
        (OnSecuritiesChanged example_host example_alpha_model example_removal [])) = [''MSFT'', ''IBM'']"
    by (simp add: OnSecuritiesChanged_def example_alpha_model_def example_removal_def
        dict_keys_def dict_pop_def)
  have c: "OnSecuritiesChanged example_host example_alpha_model example_removal [] \<noteq> example_alpha_model"
  proof
    assume e: "OnSecuritiesChanged example_host example_alpha_model example_removal [] = example_alpha_model"
    from b have "dict_keys (symbolDataBySymbol example_alpha_model) = [''MSFT'', ''IBM'']"
      unfolding e .
    with a show False by simp
  qed
  from a b c show ?thesis by (intro conjI)
qed

text \<open>
  Claim C8, as the code has it. Every key of the bookkeeping dict of
  \<^verbatim>\<open>MagicFormulaAlphaModel\<close> holds a \<^verbatim>\<open>SymbolData\<close> made for that key: the dict of a new
  model does, and \<^verbatim>\<open>OnSecuritiesChanged\<close> and \<^verbatim>\<open>Update\<close> keep it so, as they keep
  the keys distinct. After \<^verbatim>\<open>OnSecuritiesChanged\<close> the symbol of a removed security is
  not a key unless the history frame of the call has a ticker for it, and a symbol that
  was present and is not removed keeps the record it had.
\<close>

theorem bookkeeping_keyed_by_symbol:
  "keyed_by_symbol (symbolDataBySymbol (MagicFormulaAlphaModel_init lookback resolution interval))
   \<and> (keyed_by_symbol (symbolDataBySymbol self) \<longrightarrow>
        keyed_by_symbol (symbolDataBySymbol (OnSecuritiesChanged h self changes history)))
   \<and> (keyed_by_symbol (symbolDataBySymbol self) \<longrightarrow>
        keyed_by_symbol (symbolDataBySymbol (snd (MagicFormula_Update self))))
   \<and> (distinct (dict_keys (symbolDataBySymbol self)) \<longrightarrow>
        distinct (dict_keys (symbolDataBySymbol (OnSecuritiesChanged h self changes history))))
   \<and> (\<forall>s\<in>removed_symbols changes. s \<notin> GetSymbol h ` fst ` set history \<longrightarrow>
        s \<notin> set (dict_keys (symbolDataBySymbol (OnSecuritiesChanged h self changes history))))
   \<and> (\<forall>s v. map_of (symbolDataBySymbol self) s = Some v \<and> s \<notin> removed_symbols changes \<longrightarrow>
        map_of (symbolDataBySymbol (OnSecuritiesChanged h self changes history)) s = Some v)"
proof -
  have a: "keyed_by_symbol (symbolDataBySymbol (MagicFormulaAlphaModel_init lookback resolution interval))"
    by (simp add: MagicFormulaAlphaModel_init_def keyed_by_symbol_def)
  have b: "keyed_by_symbol (symbolDataBySymbol self) \<longrightarrow>
        keyed_by_symbol (symbolDataBySymbol (OnSecuritiesChanged h self changes history))"
    by (rule impI) (rule OnSecuritiesChanged_keyed)
  have c: "keyed_by_symbol (symbolDataBySymbol self) \<longrightarrow>
        keyed_by_symbol (symbolDataBySymbol (snd (MagicFormula_Update self)))"
    by (rule impI) (rule Update_keyed)
  have d: "distinct (dict_keys (symbolDataBySymbol self)) \<longrightarrow>
        distinct (dict_keys (symbolDataBySymbol (OnSecuritiesChanged h self changes history)))"
    by (rule impI) (rule OnSecuritiesChanged_distinct)
  have e: "\<forall>s\<in>removed_symbols changes. s \<notin> GetSymbol h ` fst ` set history \<longrightarrow>
        s \<notin> set (dict_keys (symbolDataBySymbol (OnSecuritiesChanged h self changes history)))"
    by (intro ballI impI) (rule OnSecuritiesChanged_removed)
  have f: "\<forall>s v. map_of (symbolDataBySymbol self) s = Some v \<and> s \<notin> removed_symbols changes \<longrightarrow>
        map_of (symbolDataBySymbol (OnSecuritiesChanged h self changes history)) s = Some v"
    by (intro allI impI, elim conjE) (rule OnSecuritiesChanged_keeps)
  from a b c d e f show ?thesis by (intro conjI)
qed

theorem bookkeeping_keyed_by_symbol_witness:
  "keyed_by_symbol (symbolDataBySymbol example_alpha_model)
   \<and> distinct (dict_keys (symbolDataBySymbol example_alpha_model))
   \<and> ''MSFT'' \<in> removed_symbols example_added
   \<and> ''MSFT'' \<notin> GetSymbol example_host ` fst ` set example_history
   \<and> dict_keys (symbolDataBySymbol
        (OnSecuritiesChanged example_host example_alpha_model example_added example_history))
       = [''AAPL'', ''IBM'', ''SPY'']
   \<and> keyed_by_symbol (symbolDataBySymbol
        (OnSecuritiesChanged example_host example_alpha_model example_added example_history))
   \<and> ''MSFT'' \<notin> set (dict_keys (symbolDataBySymbol
        (OnSecuritiesChanged example_host example_alpha_model example_added example_history)))
   \<and> map_of (symbolDataBySymbol
        (OnSecuritiesChanged example_host example_alpha_model example_added example_history)) ''AAPL''
       = map_of (symbolDataBySymbol example_alpha_model) ''AAPL''"
proof -
  note t = bookkeeping_keyed_by_symbol
    [of 1 Daily 86400000000 example_alpha_model example_host example_added example_history]
  let ?after = "symbolDataBySymbol
        (OnSecuritiesChanged example_host example_alpha_model example_added example_history)"
  have k: "keyed_by_symbol (symbolDataBySymbol example_alpha_model)"
    by (simp add: example_alpha_model_def keyed_by_symbol_def)
  have d: "distinct (dict_keys (symbolDataBySymbol example_alpha_model))"
    by (simp add: example_alpha_model_def dict_keys_def)
  have r: "''MSFT'' \<in> removed_symbols example_added"
    by (simp add: removed_symbols_def example_added_def)
  have n: "''MSFT'' \<notin> GetSymbol example_host ` fst ` set example_history"
    by (simp add: example_host_def example_history_def)
  have e: "dict_keys ?after = [''AAPL'', ''IBM'', ''SPY'']"
    by (simp add: OnSecuritiesChanged_def example_alpha_model_def example_added_def
        example_history_def example_host_def dict_keys_def dict_pop_def dict_contains_def Let_def)
  from t have "keyed_by_symbol (symbolDataBySymbol example_alpha_model) \<longrightarrow> keyed_by_symbol ?after"
    by (elim conjE)
  with k have k': "keyed_by_symbol ?after" by (rule rev_mp)
  from t have "\<forall>s\<in>removed_symbols example_added.
      s \<notin> GetSymbol example_host ` fst ` set example_history \<longrightarrow> s \<notin> set (dict_keys ?after)"
    by (elim conjE)
  then have "''MSFT'' \<notin> GetSymbol example_host ` fst ` set example_history \<longrightarrow>
      ''MSFT'' \<notin> set (dict_keys ?after)"
    using r by (rule bspec)
  with n have m: "''MSFT'' \<notin> set (dict_keys ?after)" by (rule rev_mp)
  obtain v where v: "map_of (symbolDataBySymbol example_alpha_model) ''AAPL'' = Some v"
    by (simp add: example_alpha_model_def)
  have "''AAPL'' \<notin> removed_symbols example_added"
    by (simp add: removed_symbols_def example_added_def)
  moreover from t have "\<forall>s v. map_of (symbolDataBySymbol example_alpha_model) s = Some v
      \<and> s \<notin> removed_symbols example_added \<longrightarrow> map_of ?after s = Some v"
    by (elim conjE)
  ultimately have "map_of ?after ''AAPL'' = Some v" using v by (elim allE) (erule mp, rule conjI)
  with v have u: "map_of ?after ''AAPL'' = map_of (symbolDataBySymbol example_alpha_model) ''AAPL''"
    by simp
  from k d r n e k' m u show ?thesis by (intro conjI)
qed

text \<open>
  The statement of claim C8 that no symbol of a removed security remains as a key after any
  call fails for a security that is removed and added by the same change: its symbol is
  popped, found absent by the second loop, and stored again with a fresh record.
\<close>

theorem removed_symbol_readded_counterexample:
  "''AAPL'' \<in> removed_symbols example_readded
   \<and> dict_keys (symbolDataBySymbol
        (OnSecuritiesChanged example_host example_alpha_model example_readded example_readded_history))
       = [''MSFT'', ''IBM'', ''AAPL'']
   \<and> map_of (symbolDataBySymbol
        (OnSecuritiesChanged example_host example_alpha_model example_readded example_readded_history)) ''AAPL''
       \<noteq> map_of (symbolDataBySymbol example_alpha_model) ''AAPL''"
  by (simp add: OnSecuritiesChanged_def example_alpha_model_def example_readded_def
      example_readded_history_def example_host_def dict_keys_def dict_pop_def dict_contains_def
      removed_symbols_def WarmUpIndicators_def RegisterIndicators_def SymbolData_init_def Let_def)

section \<open>SelectFine\<close>






















section \<open>LowVolatilitySelectionAlphaModel.Update\<close>

lemma take_min_length: "take (nat (min (int (length xs)) n)) xs = take (nat n) xs"
  by (cases "int (length xs) \<le> n") (simp_all add: min_def)

text \<open>
  Where the frame has one column for every symbol with data, in the order of the active
  securities, \<^verbatim>\<open>Update\<close> does rank the securities by their own standard deviation: it
  returns an Up insight with the prediction interval of the model for each of the
  \<^verbatim>\<open>numberOfStocks\<close> securities of lowest standard deviation.
\<close>

lemma LowVolatility_Update_aligned:
  assumes "hist \<noteq> []" and "map fst hist = map Symbol (filter HasData securities)"
    and "distinct (map fst hist)" and "0 \<le> lv_numberOfStocks self"
  shows "LowVolatility_Update self securities hist =
     map (\<lambda>kv. Insight_Price (fst kv) (lv_predictionInterval self) Up (Some 0) None)
       (take (nat (lv_numberOfStocks self)) (sort_key snd hist))"
proof -
  let ?n = "lv_numberOfStocks self"
  have z: "zip (map Symbol (filter HasData securities)) (map snd hist) = hist"
    using zip_map_fst_snd [of hist] by (simp only: assms(2))
  have d: "dict_from_pairs hist = hist"
    using assms(3) by (rule dict_from_pairs_distinct)
  have "mset (map fst (sort_key snd hist)) = mset (map fst hist)" by simp
  with assms(3) have "distinct (map fst (sort_key snd hist))"
    by (metis mset_eq_imp_distinct_iff)
  then have "distinct (take (nat ?n) (map fst (sort_key snd hist)))"
    by (rule distinct_take)
  then have "distinct (map fst (take (nat ?n) (sort_key snd hist)))"
    by (simp only: take_map)
  then have t: "dict_from_pairs (take (nat ?n) (sort_key snd hist)) = take (nat ?n) (sort_key snd hist)"
    by (rule dict_from_pairs_distinct)
  have m: "min (int (length hist)) ?n \<ge> 0"
    using assms(4) by simp
  from m have "\<not> min (int (length hist)) ?n < 0" by linarith
  then have "py_slice_to (min (int (length hist)) ?n) (sort_key snd hist)
      = take (nat (min (int (length (sort_key snd hist))) ?n)) (sort_key snd hist)"
    by (simp only: py_slice_to_def if_False length_sort)
  also have "\<dots> = take (nat ?n) (sort_key snd hist)"
    by (rule take_min_length)
  finally have s: "py_slice_to (min (int (length hist)) ?n) (sort_key snd hist)
      = take (nat ?n) (sort_key snd hist)" .
  show ?thesis
    using assms(1) unfolding LowVolatility_Update_def Let_def z d
    by (simp add: py_sorted_def s t)
qed

text \<open>
  Claim C2 says that \<^verbatim>\<open>LowVolatilitySelectionAlphaModel.Update\<close> sorts the active
  securities that have data by the standard deviation of their own close-price changes and
  returns an insight for each of the \<open>min(numberOfStocks, number of such symbols)\<close> lowest.
  The code pairs \<^verbatim>\<open>symbols\<close> and \<^verbatim>\<open>stdDev\<close> by position. Here the active securities
  are MSFT and AAPL in this order, and the columns of the frame are in the order of their
  tickers, AAPL with the lower deviation first: with one stock asked for, the insight is
  for MSFT, the security of the higher deviation. With a frame of the single column AAPL
  and ten stocks asked for, one insight comes back for two securities with data, and it
  is for MSFT.
\<close>

theorem LowVolatility_Update_pairs_by_position:
  "map Symbol (filter HasData example_active) = [''MSFT'', ''AAPL'']
   \<and> map_of example_volatility ''AAPL'' = Some (1 / 100)
   \<and> map_of example_volatility ''MSFT'' = Some (5 / 100)
   \<and> LowVolatility_Update example_low_vol_model example_active example_volatility
       = [Insight_Price ''MSFT'' 86400000000 Up (Some 0) None]
   \<and> LowVolatility_Update (example_low_vol_model\<lparr>lv_numberOfStocks := 10\<rparr>) example_active
        [(''AAPL'', 1 / 100)]
       = [Insight_Price ''MSFT'' 86400000000 Up (Some 0) None]"
  by (simp add: LowVolatility_Update_def example_active_def example_volatility_def
      example_low_vol_model_def dict_from_pairs_def py_sorted_def py_slice_to_def Let_def)

end
